theory Spec2Isabelle
  imports Complex_Main
begin

section \<open>The session state of \<open>App\<close> (src/App.tsx)\<close>

text \<open>
  The component \<open>App\<close> keeps one lifecycle status (React state) and six mutable refs.
  Its handlers run one at a time on the event loop, so each handler is a function from
  the state before it to the state after it. Objects of the browser and of the remote SDK
  (media streams, audio contexts, buffer sources, session promises) are identified by a
  number; what the handlers do to them is appended to a log of effects, in call order.
  Times are seconds of the output audio context's clock, modelled as real numbers
  (the handlers apply one \<open>max\<close> and one addition to them).
\<close>

datatype ChatStatus = IDLE | CONNECTING | CONNECTED | DISCONNECTED | ERROR

type_synonym obj = nat

type_synonym blob = string

text \<open>
  An \<open>AudioBuffer\<close>: its duration is its length in sample frames over its sample rate,
  hence never negative.
\<close>

datatype AudioBuffer = AudioBuffer (buf_length: nat) (buf_sampleRate: nat)

definition duration :: "AudioBuffer \<Rightarrow> real" where
  "duration b = real (buf_length b) / real (buf_sampleRate b)"

text \<open>What a message handler can throw: a read of an absent value, or a failed decode.\<close>

datatype error = TypeError | MalformedFrame

text \<open>What is called on a resolved session object.\<close>

datatype callback = SendRealtimeInput blob | CloseSession

text \<open>
  A session promise is pending with the callbacks registered by \<open>then\<close>, in order, or
  fulfilled with the calls already made on its session object, in order, or rejected.
\<close>

datatype promise = Pending "callback list" | Fulfilled "callback list" | Rejected

datatype effect =
    GetUserMedia
  | StopTracks obj
  | NewAudioContext obj nat
  | ContextClose obj
  | Connect obj obj obj
  | CreateCapture obj obj obj
  | Disconnect obj
  | SourceStart obj real AudioBuffer
  | SourceStop obj
  | ConsoleError string

record app =
  status :: ChatStatus
  localStream :: "obj option"
  sessionPromiseRef :: "obj option"
  localStreamRef :: "obj option"
  outputAudioContextRef :: "obj option"
  nextStartTimeRef :: real
  playingSourcesRef :: "obj list"
  inputAudioProcessorRef :: "(obj \<times> obj) option"
  heap_next :: obj
  promises :: "obj \<rightharpoonup> promise"
  effects :: "effect list"

text \<open>
  \<open>playingSourcesRef\<close> is a JavaScript \<open>Set\<close>: a duplicate-free sequence in insertion
  order, which is the order \<open>forEach\<close> visits. \<open>heap_next\<close> is the identity the next
  created object gets. The presentational state \<open>strangerImageUrl\<close> is left out.
\<close>

definition set_add :: "obj \<Rightarrow> obj list \<Rightarrow> obj list" where
  "set_add x xs = (if x \<in> set xs then xs else xs @ [x])"

definition set_delete :: "obj \<Rightarrow> obj list \<Rightarrow> obj list" where
  "set_delete x xs = removeAll x xs"

text \<open>The state of a freshly mounted component (the initial values of lines 96 to 105).\<close>

definition init :: app where
  "init = \<lparr> status = IDLE, localStream = None, sessionPromiseRef = None,
            localStreamRef = None, outputAudioContextRef = None, nextStartTimeRef = 0,
            playingSourcesRef = [], inputAudioProcessorRef = None, heap_next = 0,
            promises = Map.empty, effects = [] \<rparr>"

text \<open>JavaScript truthiness of an optional string: absent and empty are falsy.\<close>

definition truthy :: "string option \<Rightarrow> bool" where
  "truthy v = (case v of None \<Rightarrow> False | Some t \<Rightarrow> t \<noteq> [])"

section \<open>Promises\<close>

text \<open>
  \<open>p.then(cb)\<close>: on a pending promise the callback is queued behind the earlier ones; on
  a fulfilled one it runs on the session object; on a rejected one it never runs.
\<close>

definition then_on :: "callback \<Rightarrow> promise \<Rightarrow> promise" where
  "then_on cb pr =
     (case pr of
        Pending q \<Rightarrow> Pending (q @ [cb])
      | Fulfilled ops \<Rightarrow> Fulfilled (ops @ [cb])
      | Rejected \<Rightarrow> Rejected)"

definition promise_then :: "obj \<Rightarrow> callback \<Rightarrow> app \<Rightarrow> app" where
  "promise_then p cb s =
     (case promises s p of
        None \<Rightarrow> s
      | Some pr \<Rightarrow> s\<lparr>promises := (promises s)(p \<mapsto> then_on cb pr)\<rparr>)"

text \<open>The remote connection behind promise \<open>p\<close> becomes available: the queue runs in order.\<close>

definition resolve_session :: "obj \<Rightarrow> app \<Rightarrow> app" where
  "resolve_session p s =
     (case promises s p of
        Some (Pending q) \<Rightarrow> s\<lparr>promises := (promises s)(p \<mapsto> Fulfilled q)\<rparr>
      | _ \<Rightarrow> s)"

section \<open>cleanup (lines 108 to 135)\<close>

text \<open>The blocks of \<open>cleanup\<close>, in the order of the source.\<close>

definition release_stream :: "app \<Rightarrow> app" where
  "release_stream s =
     (case localStreamRef s of
        Some st \<Rightarrow> s\<lparr>effects := effects s @ [StopTracks st],
                      localStreamRef := None, localStream := None\<rparr>
      | None \<Rightarrow> s)"

definition request_close :: "app \<Rightarrow> app" where
  "request_close s =
     (case sessionPromiseRef s of
        Some p \<Rightarrow> (promise_then p CloseSession s)\<lparr>sessionPromiseRef := None\<rparr>
      | None \<Rightarrow> s)"

definition release_capture :: "app \<Rightarrow> app" where
  "release_capture s =
     (case inputAudioProcessorRef s of
        Some (source, processor) \<Rightarrow>
          s\<lparr>effects := effects s @ [Disconnect processor, Disconnect source],
             inputAudioProcessorRef := None\<rparr>
      | None \<Rightarrow> s)"

definition stop_sources :: "app \<Rightarrow> app" where
  "stop_sources s =
     s\<lparr>effects := effects s @ map SourceStop (playingSourcesRef s),
       playingSourcesRef := []\<rparr>"

definition close_output :: "app \<Rightarrow> app" where
  "close_output s =
     (case outputAudioContextRef s of
        Some c \<Rightarrow>
          (if ContextClose c \<notin> set (effects s)
           then s\<lparr>effects := effects s @ [ContextClose c]\<rparr> else s)
      | None \<Rightarrow> s)"

definition cleanup :: "app \<Rightarrow> app" where
  "cleanup s =
     (close_output (stop_sources (release_capture (request_close (release_stream s)))))
       \<lparr>outputAudioContextRef := None, nextStartTimeRef := 0\<rparr>"

section \<open>startChat (lines 137 to 230)\<close>

text \<open>
  \<open>startChat\<close> is asynchronous with one \<open>await\<close>, on \<open>getUserMedia\<close>: the part before
  it and the part after it are two handlers. Whether the device is granted and the value
  of the API credential come from the environment.
\<close>

definition startChat_begin :: "app \<Rightarrow> app" where
  "startChat_begin s =
     (let s1 = cleanup s
      in s1\<lparr>status := CONNECTING, effects := effects s1 @ [GetUserMedia]\<rparr>)"

definition startChat_catch :: "app \<Rightarrow> app" where
  "startChat_catch s =
     cleanup (s\<lparr>effects := effects s @ [ConsoleError ''Failed to start chat:''],
               status := ERROR\<rparr>)"

definition startChat_resume :: "string option \<Rightarrow> bool \<Rightarrow> app \<Rightarrow> app" where
  "startChat_resume apiKey granted s =
     (if \<not> granted then startChat_catch s
      else
        let stream = heap_next s;
            s1 = s\<lparr>heap_next := stream + 1, localStreamRef := Some stream,
                   localStream := Some stream\<rparr>
        in if \<not> truthy apiKey then startChat_catch s1
           else
             let inputAudioContext = heap_next s1;
                 outputAudioContext = inputAudioContext + 1;
                 p = outputAudioContext + 1
             in s1\<lparr>heap_next := p + 1,
                    outputAudioContextRef := Some outputAudioContext,
                    sessionPromiseRef := Some p,
                    promises := (promises s1)(p \<mapsto> Pending []),
                    effects := effects s1 @
                      [NewAudioContext inputAudioContext 16000,
                       NewAudioContext outputAudioContext 24000,
                       Connect p stream inputAudioContext]\<rparr>)"

text \<open>A start whose device request settles before any other handler runs.\<close>

definition startChat :: "string option \<Rightarrow> bool \<Rightarrow> app \<Rightarrow> app" where
  "startChat apiKey granted s = startChat_resume apiKey granted (startChat_begin s)"

section \<open>The callbacks of the session (lines 168 to 221)\<close>

text \<open>\<open>onopen\<close> closes over the stream and the input audio context of its \<open>startChat\<close>.\<close>

definition onopen :: "obj \<Rightarrow> obj \<Rightarrow> app \<Rightarrow> app" where
  "onopen stream inputAudioContext s =
     (let source = heap_next s; scriptProcessor = source + 1
      in s\<lparr>heap_next := scriptProcessor + 1,
            effects := effects s @ [CreateCapture source scriptProcessor stream],
            inputAudioProcessorRef := Some (source, scriptProcessor),
            status := CONNECTED\<rparr>)"

definition onaudioprocess :: "blob \<Rightarrow> app \<Rightarrow> app" where
  "onaudioprocess pcmBlob s =
     (case sessionPromiseRef s of
        Some p \<Rightarrow> promise_then p (SendRealtimeInput pcmBlob) s
      | None \<Rightarrow> s)"

text \<open>The inbound message, with the optional fields the handler reads.\<close>

datatype Blob = Blob (data: "string option")

datatype Part = Part (inlineData: "Blob option")

datatype Content = Content (parts: "Part list option")

datatype LiveServerContent =
  LiveServerContent (modelTurn: "Content option") (interrupted: "bool option")

datatype LiveServerMessage = LiveServerMessage (serverContent: "LiveServerContent option")

text \<open>
  \<open>message.serverContent?.modelTurn?.parts[0]?.inlineData?.data\<close>: each \<open>?.\<close> yields
  undefined on an absent value; \<open>parts[0]\<close> is not guarded, so a model turn without
  \<open>parts\<close> throws.
\<close>

definition audioData_of :: "LiveServerMessage \<Rightarrow> error + string option" where
  "audioData_of message =
     (case serverContent message of
        None \<Rightarrow> Inr None
      | Some sc \<Rightarrow>
          (case modelTurn sc of
             None \<Rightarrow> Inr None
           | Some mt \<Rightarrow>
               (case parts mt of
                  None \<Rightarrow> Inl TypeError
                | Some [] \<Rightarrow> Inr None
                | Some (p # _) \<Rightarrow>
                    (case inlineData p of
                       None \<Rightarrow> Inr None
                     | Some b \<Rightarrow> Inr (data b)))))"

definition interrupted_of :: "LiveServerMessage \<Rightarrow> bool" where
  "interrupted_of message =
     (case serverContent message of
        None \<Rightarrow> False
      | Some sc \<Rightarrow> interrupted sc = Some True)"

text \<open>
  The helpers \<open>decode\<close> and \<open>decodeAudioData\<close> of \<open>./utils/audio\<close> are not among the
  sources. The handler uses only their outcome: they throw, or they yield an audio buffer.
  That outcome is the parameter \<open>dec\<close>.

  The body of the audio branch (lines 189 to 203) is \<open>enqueue\<close>. It reads the clock and
  raises the cursor before the \<open>await\<close> on the decoder (\<open>enqueue_begin\<close>), and
  schedules after it (\<open>enqueue_resume\<close>); \<open>enqueue\<close> is the two run back to back, the
  decoder settling before any other handler runs. A handler that throws rejects its
  promise and keeps the writes made so far: the result is the error, if any, and the
  state.
\<close>

definition enqueue_begin :: "real \<Rightarrow> app \<Rightarrow> app" where
  "enqueue_begin now s = s\<lparr>nextStartTimeRef := max (nextStartTimeRef s) now\<rparr>"

definition enqueue_resume :: "AudioBuffer \<Rightarrow> app \<Rightarrow> app" where
  "enqueue_resume audioBuffer s =
     (let source = heap_next s
      in s\<lparr>heap_next := source + 1,
            effects := effects s @ [SourceStart source (nextStartTimeRef s) audioBuffer],
            nextStartTimeRef := nextStartTimeRef s + duration audioBuffer,
            playingSourcesRef := set_add source (playingSourcesRef s)\<rparr>)"

definition enqueue ::
  "(string \<Rightarrow> error + AudioBuffer) \<Rightarrow> real \<Rightarrow> string \<Rightarrow> app \<Rightarrow> error option \<times> app" where
  "enqueue dec now audioData s =
     (let s1 = enqueue_begin now s
      in case dec audioData of
           Inl e \<Rightarrow> (Some e, s1)
         | Inr audioBuffer \<Rightarrow> (None, enqueue_resume audioBuffer s1))"

text \<open>The listener for \<open>ended\<close> that \<open>enqueue\<close> registers on the source (lines 197 to 199).\<close>

definition ended :: "obj \<Rightarrow> app \<Rightarrow> app" where
  "ended source s = s\<lparr>playingSourcesRef := set_delete source (playingSourcesRef s)\<rparr>"

text \<open>The body of the interruption branch (lines 207 to 209).\<close>

definition interrupt :: "app \<Rightarrow> app" where
  "interrupt s =
     s\<lparr>effects := effects s @ map SourceStop (playingSourcesRef s),
       playingSourcesRef := [],
       nextStartTimeRef := 0\<rparr>"

definition onmessage ::
  "(string \<Rightarrow> error + AudioBuffer) \<Rightarrow> real \<Rightarrow> LiveServerMessage \<Rightarrow> app
     \<Rightarrow> error option \<times> app" where
  "onmessage dec now message s =
     (case audioData_of message of
        Inl e \<Rightarrow> (Some e, s)
      | Inr audioData \<Rightarrow>
          (case (case audioData of
                   Some a \<Rightarrow>
                     (if a \<noteq> [] \<and> outputAudioContextRef s \<noteq> None
                      then enqueue dec now a s else (None, s))
                 | None \<Rightarrow> (None, s)) of
             (Some e, s1) \<Rightarrow> (Some e, s1)
           | (None, s1) \<Rightarrow> (None, if interrupted_of message then interrupt s1 else s1)))"

definition onerror_log :: "app \<Rightarrow> app" where
  "onerror_log s = s\<lparr>effects := effects s @ [ConsoleError ''Gemini Live API Error:'']\<rparr>"

definition onerror :: "app \<Rightarrow> app" where
  "onerror s = cleanup ((onerror_log s)\<lparr>status := ERROR\<rparr>)"

definition onclose :: "app \<Rightarrow> app" where
  "onclose s =
     s\<lparr>status := (if status s = CONNECTED \<or> status s = CONNECTING
                   then DISCONNECTED else status s)\<rparr>"

section \<open>The commands of the user (lines 232 to 243)\<close>

definition handleStop :: "app \<Rightarrow> app" where
  "handleStop s = cleanup (s\<lparr>status := DISCONNECTED\<rparr>)"

text \<open>\<open>handleNext\<close> sets the status; its timer runs \<open>startChat\<close> later, as an event of its own.\<close>

definition handleNext :: "app \<Rightarrow> app" where
  "handleNext s = s\<lparr>status := DISCONNECTED\<rparr>"

text \<open>
  Every resource handle that \<open>cleanup\<close> is to leave null, empty or reset: the five refs
  and the cursor.
\<close>

definition released :: "app \<Rightarrow> bool" where
  "released s =
     (localStreamRef s = None \<and> sessionPromiseRef s = None \<and>
      inputAudioProcessorRef s = None \<and> playingSourcesRef s = [] \<and>
      outputAudioContextRef s = None \<and> nextStartTimeRef s = 0)"

section \<open>Sequences of calls and events\<close>

text \<open>A sequence of \<open>enqueue\<close> calls, each with the clock's time at the call and its payload.\<close>

fun enqueue_all ::
  "(string \<Rightarrow> error + AudioBuffer) \<Rightarrow> (real \<times> string) list \<Rightarrow> app \<Rightarrow> app" where
  "enqueue_all dec [] s = s"
| "enqueue_all dec (c # calls) s = enqueue_all dec calls (snd (enqueue dec (fst c) (snd c) s))"

text \<open>The start times passed to \<open>source.start\<close>, in call order, read off the log.\<close>

fun starts :: "effect list \<Rightarrow> real list" where
  "starts [] = []"
| "starts (SourceStart source t b # es) = t # starts es"
| "starts (e # es) = starts es"

text \<open>
  Everything that can happen to the component: the commands of the user, the two halves
  of \<open>startChat\<close>, the callbacks of a session, a capture window, the end of a buffer,
  the settling of a session promise, and the unmounting of the component.
\<close>

datatype event =
    StartBegin
  | StartResume "string option" bool
  | Open obj obj
  | AudioProcess blob
  | Message real LiveServerMessage
  | Ended obj
  | TransportError
  | TransportClose
  | Stop
  | Next
  | Resolve obj
  | Reject obj
  | Unmount

definition reject_session :: "obj \<Rightarrow> app \<Rightarrow> app" where
  "reject_session p s =
     (case promises s p of
        Some (Pending q) \<Rightarrow> s\<lparr>promises := (promises s)(p \<mapsto> Rejected)\<rparr>
      | _ \<Rightarrow> s)"

fun step :: "(string \<Rightarrow> error + AudioBuffer) \<Rightarrow> event \<Rightarrow> app \<Rightarrow> app" where
  "step dec StartBegin s = startChat_begin s"
| "step dec (StartResume apiKey granted) s = startChat_resume apiKey granted s"
| "step dec (Open stream inputAudioContext) s = onopen stream inputAudioContext s"
| "step dec (AudioProcess pcmBlob) s = onaudioprocess pcmBlob s"
| "step dec (Message now message) s = snd (onmessage dec now message s)"
| "step dec (Ended source) s = ended source s"
| "step dec TransportError s = onerror s"
| "step dec TransportClose s = onclose s"
| "step dec Stop s = handleStop s"
| "step dec Next s = handleNext s"
| "step dec (Resolve p) s = resolve_session p s"
| "step dec (Reject p) s = reject_session p s"
| "step dec Unmount s = cleanup s"

definition run :: "(string \<Rightarrow> error + AudioBuffer) \<Rightarrow> event list \<Rightarrow> app \<Rightarrow> app" where
  "run dec evs s = fold (step dec) evs s"


section \<open>Concrete inputs\<close>

text \<open>A decoder that rejects the payload \<open>!\<close> and yields half a second of audio otherwise.\<close>

definition dec_half :: "string \<Rightarrow> error + AudioBuffer" where
  "dec_half a = (if a = ''!'' then Inl MalformedFrame else Inr (AudioBuffer 12000 24000))"

definition audio_message :: "string \<Rightarrow> bool \<Rightarrow> LiveServerMessage" where
  "audio_message a i =
     LiveServerMessage (Some (LiveServerContent
       (Some (Content (Some [Part (Some (Blob (Some a)))]))) (Some i)))"

definition plain_message :: "bool \<Rightarrow> LiveServerMessage" where
  "plain_message i = LiveServerMessage (Some (LiveServerContent None (Some i)))"

text \<open>A message whose model turn has no \<open>parts\<close>.\<close>

definition partless_message :: "bool \<Rightarrow> LiveServerMessage" where
  "partless_message i =
     LiveServerMessage (Some (LiveServerContent (Some (Content None)) (Some i)))"

text \<open>
  A session reached from the fresh component: started with a credential and a granted
  device, opened, and two half-second buffers received at clock time 1, both still
  playing.
\<close>

definition s_live :: app where
  "s_live = run dec_half
     [StartBegin, StartResume (Some ''key'') True, Open 0 1,
      Message 1 (audio_message ''x'' False), Message 1 (audio_message ''y'' False)] init"


section \<open>What each block of cleanup does to each field\<close>

lemma promise_then_fields [simp]:
  "status (promise_then p cb s) = status s"
  "localStream (promise_then p cb s) = localStream s"
  "sessionPromiseRef (promise_then p cb s) = sessionPromiseRef s"
  "localStreamRef (promise_then p cb s) = localStreamRef s"
  "outputAudioContextRef (promise_then p cb s) = outputAudioContextRef s"
  "nextStartTimeRef (promise_then p cb s) = nextStartTimeRef s"
  "playingSourcesRef (promise_then p cb s) = playingSourcesRef s"
  "inputAudioProcessorRef (promise_then p cb s) = inputAudioProcessorRef s"
  "heap_next (promise_then p cb s) = heap_next s"
  "effects (promise_then p cb s) = effects s"
  by (simp_all add: promise_then_def split: option.splits)

lemma release_stream_fields [simp]:
  "status (release_stream s) = status s"
  "localStream (release_stream s) = (if localStreamRef s = None then localStream s else None)"
  "sessionPromiseRef (release_stream s) = sessionPromiseRef s"
  "localStreamRef (release_stream s) = None"
  "outputAudioContextRef (release_stream s) = outputAudioContextRef s"
  "nextStartTimeRef (release_stream s) = nextStartTimeRef s"
  "playingSourcesRef (release_stream s) = playingSourcesRef s"
  "inputAudioProcessorRef (release_stream s) = inputAudioProcessorRef s"
  "heap_next (release_stream s) = heap_next s"
  "promises (release_stream s) = promises s"
  "effects (release_stream s) =
     effects s @ (case localStreamRef s of Some st \<Rightarrow> [StopTracks st] | None \<Rightarrow> [])"
  by (simp_all add: release_stream_def split: option.splits)

lemma request_close_fields [simp]:
  "status (request_close s) = status s"
  "localStream (request_close s) = localStream s"
  "sessionPromiseRef (request_close s) = None"
  "localStreamRef (request_close s) = localStreamRef s"
  "outputAudioContextRef (request_close s) = outputAudioContextRef s"
  "nextStartTimeRef (request_close s) = nextStartTimeRef s"
  "playingSourcesRef (request_close s) = playingSourcesRef s"
  "inputAudioProcessorRef (request_close s) = inputAudioProcessorRef s"
  "heap_next (request_close s) = heap_next s"
  "effects (request_close s) = effects s"
  by (simp_all add: request_close_def split: option.splits)

lemma release_capture_fields [simp]:
  "status (release_capture s) = status s"
  "localStream (release_capture s) = localStream s"
  "sessionPromiseRef (release_capture s) = sessionPromiseRef s"
  "localStreamRef (release_capture s) = localStreamRef s"
  "outputAudioContextRef (release_capture s) = outputAudioContextRef s"
  "nextStartTimeRef (release_capture s) = nextStartTimeRef s"
  "playingSourcesRef (release_capture s) = playingSourcesRef s"
  "inputAudioProcessorRef (release_capture s) = None"
  "heap_next (release_capture s) = heap_next s"
  "promises (release_capture s) = promises s"
  "effects (release_capture s) =
     effects s @ (case inputAudioProcessorRef s of
                    Some (source, processor) \<Rightarrow> [Disconnect processor, Disconnect source]
                  | None \<Rightarrow> [])"
  by (simp_all add: release_capture_def split: option.splits prod.splits)

lemma stop_sources_fields [simp]:
  "status (stop_sources s) = status s"
  "localStream (stop_sources s) = localStream s"
  "sessionPromiseRef (stop_sources s) = sessionPromiseRef s"
  "localStreamRef (stop_sources s) = localStreamRef s"
  "outputAudioContextRef (stop_sources s) = outputAudioContextRef s"
  "nextStartTimeRef (stop_sources s) = nextStartTimeRef s"
  "playingSourcesRef (stop_sources s) = []"
  "inputAudioProcessorRef (stop_sources s) = inputAudioProcessorRef s"
  "heap_next (stop_sources s) = heap_next s"
  "promises (stop_sources s) = promises s"
  "effects (stop_sources s) = effects s @ map SourceStop (playingSourcesRef s)"
  by (simp_all add: stop_sources_def)

lemma close_output_fields [simp]:
  "status (close_output s) = status s"
  "localStream (close_output s) = localStream s"
  "sessionPromiseRef (close_output s) = sessionPromiseRef s"
  "localStreamRef (close_output s) = localStreamRef s"
  "outputAudioContextRef (close_output s) = outputAudioContextRef s"
  "nextStartTimeRef (close_output s) = nextStartTimeRef s"
  "playingSourcesRef (close_output s) = playingSourcesRef s"
  "inputAudioProcessorRef (close_output s) = inputAudioProcessorRef s"
  "heap_next (close_output s) = heap_next s"
  "promises (close_output s) = promises s"
  by (simp_all add: close_output_def split: option.splits)

lemma cleanup_fields [simp]:
  "status (cleanup s) = status s"
  "localStream (cleanup s) = (if localStreamRef s = None then localStream s else None)"
  "sessionPromiseRef (cleanup s) = None"
  "localStreamRef (cleanup s) = None"
  "outputAudioContextRef (cleanup s) = None"
  "nextStartTimeRef (cleanup s) = 0"
  "playingSourcesRef (cleanup s) = []"
  "inputAudioProcessorRef (cleanup s) = None"
  "heap_next (cleanup s) = heap_next s"
  by (simp_all add: cleanup_def)

lemma promise_then_promises:
  "promises (promise_then p cb s) =
     (case promises s p of
        None \<Rightarrow> promises s
      | Some pr \<Rightarrow> (promises s)(p \<mapsto> then_on cb pr))"
  by (simp add: promise_then_def split: option.splits)

lemma request_close_promises:
  "promises (request_close s) =
     (case sessionPromiseRef s of
        None \<Rightarrow> promises s
      | Some p \<Rightarrow> promises (promise_then p CloseSession s))"
  by (simp add: request_close_def split: option.splits)

lemma close_output_effects:
  "effects (close_output s) =
     effects s @ (case outputAudioContextRef s of
                    Some c \<Rightarrow> (if ContextClose c \<in> set (effects s) then [] else [ContextClose c])
                  | None \<Rightarrow> [])"
  by (simp add: close_output_def split: option.splits)

lemma cleanup_promises: "promises (cleanup s) = promises (request_close s)"
  by (simp add: cleanup_def request_close_promises promise_then_promises
      split: option.splits)

lemma cleanup_effects_prefix: "\<exists>es. effects (cleanup s) = effects s @ es"
  by (simp add: cleanup_def close_output_effects)

lemma cleanup_released: "released (cleanup s)"
  by (simp add: released_def)

lemma cleanup_of_released: "released s \<Longrightarrow> cleanup s = s"
  by (simp add: released_def cleanup_def release_stream_def request_close_def
      release_capture_def stop_sources_def close_output_def)


section \<open>The concrete session, evaluated\<close>

lemma s_live_value:
  "s_live = \<lparr> status = CONNECTED, localStream = Some 0, sessionPromiseRef = Some 3,
              localStreamRef = Some 0, outputAudioContextRef = Some 2, nextStartTimeRef = 2,
              playingSourcesRef = [6, 7], inputAudioProcessorRef = Some (4, 5), heap_next = 8,
              promises = [3 \<mapsto> Pending []],
              effects = [GetUserMedia, NewAudioContext 1 16000, NewAudioContext 2 24000,
                         Connect 3 0 1, CreateCapture 4 5 0,
                         SourceStart 6 1 (AudioBuffer 12000 24000),
                         SourceStart 7 (3 / 2) (AudioBuffer 12000 24000)] \<rparr>"
  by (simp add: s_live_def run_def init_def startChat_begin_def startChat_resume_def
      cleanup_def release_stream_def request_close_def release_capture_def stop_sources_def
      close_output_def truthy_def onopen_def onmessage_def
      audio_message_def audioData_of_def interrupted_of_def enqueue_def enqueue_begin_def
      enqueue_resume_def dec_half_def set_add_def duration_def Let_def
      numeral_3_eq_3 [symmetric])

lemma released_status_update: "released (s\<lparr>status := x\<rparr>) = released s"
  by (simp add: released_def)

lemma handleStop_twice: "handleStop (handleStop s) = handleStop s"
proof -
  let ?t = "cleanup (s\<lparr>status := DISCONNECTED\<rparr>)"
  have "?t\<lparr>status := status ?t\<rparr> = ?t" by simp
  then have same: "?t\<lparr>status := DISCONNECTED\<rparr> = ?t" by simp
  have idem: "cleanup ?t = ?t" by (rule cleanup_of_released) (rule cleanup_released)
  have "handleStop (handleStop s) = cleanup (?t\<lparr>status := DISCONNECTED\<rparr>)"
    by (simp only: handleStop_def)
  also have "\<dots> = cleanup ?t" by (simp only: same)
  also have "\<dots> = ?t" by (rule idem)
  finally show ?thesis by (simp only: handleStop_def)
qed

lemma cleanup_effects:
  "effects (cleanup s) =
     effects s
     @ (case localStreamRef s of Some st \<Rightarrow> [StopTracks st] | None \<Rightarrow> [])
     @ (case inputAudioProcessorRef s of
          Some (source, processor) \<Rightarrow> [Disconnect processor, Disconnect source]
        | None \<Rightarrow> [])
     @ map SourceStop (playingSourcesRef s)
     @ (case outputAudioContextRef s of
          Some c \<Rightarrow>
            (if ContextClose c \<in> set (effects s) then [] else [ContextClose c])
        | None \<Rightarrow> [])"
  by (auto simp add: cleanup_def close_output_effects split: option.splits)

section \<open>Cleanup is idempotent and safe on any state\<close>

text \<open>
  C7. \<open>cleanup\<close> has no throwing path (every dereference is under its null test), so it
  is a total function of the state. Running it twice is running it once; after it every
  resource handle is null, the set of playing sources is empty and the cursor is 0,
  whatever had been acquired before; on the state of a fresh component, where nothing
  was acquired, it changes nothing. The same holds for \<open>handleStop\<close>, in every status.
  What the handles referred to has been released: the tracks of the stream are stopped,
  the capture nodes disconnected, every playing source stopped, the output context closed.
\<close>

theorem cleanup_idempotent:
  "cleanup (cleanup s) = cleanup s \<and>
   released (cleanup s) \<and>
   handleStop (handleStop s) = handleStop s \<and>
   released (handleStop s) \<and>
   cleanup init = init \<and>
   (\<forall>st. localStreamRef s = Some st \<longrightarrow> StopTracks st \<in> set (effects (cleanup s))) \<and>
   (\<forall>source processor. inputAudioProcessorRef s = Some (source, processor) \<longrightarrow>
      Disconnect processor \<in> set (effects (cleanup s)) \<and>
      Disconnect source \<in> set (effects (cleanup s))) \<and>
   (\<forall>source \<in> set (playingSourcesRef s). SourceStop source \<in> set (effects (cleanup s))) \<and>
   (\<forall>c. outputAudioContextRef s = Some c \<longrightarrow> ContextClose c \<in> set (effects (cleanup s)))"
proof -
  have twice: "cleanup (cleanup s) = cleanup s"
    by (rule cleanup_of_released) (rule cleanup_released)
  have fresh: "cleanup init = init"
    by (rule cleanup_of_released) (simp add: released_def init_def)
  have stop: "released (handleStop s)"
    by (simp only: handleStop_def cleanup_released)
  have eff: "(\<forall>st. localStreamRef s = Some st \<longrightarrow> StopTracks st \<in> set (effects (cleanup s))) \<and>
    (\<forall>source processor. inputAudioProcessorRef s = Some (source, processor) \<longrightarrow>
      Disconnect processor \<in> set (effects (cleanup s)) \<and>
      Disconnect source \<in> set (effects (cleanup s))) \<and>
    (\<forall>source \<in> set (playingSourcesRef s). SourceStop source \<in> set (effects (cleanup s))) \<and>
    (\<forall>c. outputAudioContextRef s = Some c \<longrightarrow> ContextClose c \<in> set (effects (cleanup s)))"
    by (auto simp add: cleanup_effects)
  from twice fresh stop eff cleanup_released [of s] handleStop_twice [of s]
  show ?thesis by blast
qed

theorem cleanup_idempotent_witness:
  "localStreamRef s_live = Some 0 \<and> inputAudioProcessorRef s_live = Some (4, 5) \<and>
   6 \<in> set (playingSourcesRef s_live) \<and> outputAudioContextRef s_live = Some 2 \<and>
   StopTracks 0 \<in> set (effects (cleanup s_live)) \<and>
   Disconnect 5 \<in> set (effects (cleanup s_live)) \<and>
   Disconnect 4 \<in> set (effects (cleanup s_live)) \<and>
   SourceStop 6 \<in> set (effects (cleanup s_live)) \<and>
   ContextClose 2 \<in> set (effects (cleanup s_live)) \<and>
   cleanup (cleanup s_live) = cleanup s_live \<and> released (cleanup s_live)"
proof -
  have h: "localStreamRef s_live = Some 0 \<and> inputAudioProcessorRef s_live = Some (4, 5) \<and>
    6 \<in> set (playingSourcesRef s_live) \<and> outputAudioContextRef s_live = Some 2"
    by (simp add: s_live_value)
  with cleanup_idempotent [of s_live] show ?thesis by blast
qed

section \<open>A transport error always ends in ERROR\<close>

text \<open>
  C10. In every state \<open>onerror\<close> logs the error, sets the status to ERROR and runs the
  full cleanup: the tracks of the stream are stopped, a close is registered on the session
  promise, the capture nodes are disconnected, every playing source is stopped, an
  output context that is not closed is closed, and afterwards all handles are null, the
  set of playing sources is empty and the cursor is 0. The assignment of the status has no
  guard: after \<open>handleStop\<close> has set DISCONNECTED, a transport error overwrites it with
  ERROR, while \<open>onclose\<close> in the same situation leaves DISCONNECTED.
\<close>

theorem onerror_unconditional:
  "status (onerror s) = ERROR \<and>
   released (onerror s) \<and>
   effects (onerror s) =
     effects s @ [ConsoleError ''Gemini Live API Error:'']
     @ (case localStreamRef s of Some st \<Rightarrow> [StopTracks st] | None \<Rightarrow> [])
     @ (case inputAudioProcessorRef s of
          Some (source, processor) \<Rightarrow> [Disconnect processor, Disconnect source]
        | None \<Rightarrow> [])
     @ map SourceStop (playingSourcesRef s)
     @ (case outputAudioContextRef s of
          Some c \<Rightarrow>
            (if ContextClose c \<in> set (effects s) then [] else [ContextClose c])
        | None \<Rightarrow> []) \<and>
   promises (onerror s) =
     (case sessionPromiseRef s of
        None \<Rightarrow> promises s
      | Some p \<Rightarrow>
          (case promises s p of
             None \<Rightarrow> promises s
           | Some pr \<Rightarrow> (promises s)(p \<mapsto> then_on CloseSession pr))) \<and>
   localStream (onerror s) = (if localStreamRef s = None then localStream s else None) \<and>
   heap_next (onerror s) = heap_next s \<and>
   status (handleStop s) = DISCONNECTED \<and>
   status (onerror (handleStop s)) = ERROR \<and>
   status (onclose (handleStop s)) = DISCONNECTED"
proof -
  let ?t = "(onerror_log s)\<lparr>status := ERROR\<rparr>"
  have refs: "localStreamRef ?t = localStreamRef s" "sessionPromiseRef ?t = sessionPromiseRef s"
    "inputAudioProcessorRef ?t = inputAudioProcessorRef s"
    "playingSourcesRef ?t = playingSourcesRef s"
    "outputAudioContextRef ?t = outputAudioContextRef s" "promises ?t = promises s"
    "effects ?t = effects s @ [ConsoleError ''Gemini Live API Error:'']"
    "localStream ?t = localStream s" "heap_next ?t = heap_next s"
    by (simp_all add: onerror_log_def)
  have ef: "effects (onerror s) =
     effects s @ [ConsoleError ''Gemini Live API Error:'']
     @ (case localStreamRef s of Some st \<Rightarrow> [StopTracks st] | None \<Rightarrow> [])
     @ (case inputAudioProcessorRef s of
          Some (source, processor) \<Rightarrow> [Disconnect processor, Disconnect source]
        | None \<Rightarrow> [])
     @ map SourceStop (playingSourcesRef s)
     @ (case outputAudioContextRef s of
          Some c \<Rightarrow>
            (if ContextClose c \<in> set (effects s) then [] else [ContextClose c])
        | None \<Rightarrow> [])"
    unfolding onerror_def cleanup_effects [of ?t] refs
    by (simp split: option.splits)
  have pr: "promises (onerror s) =
     (case sessionPromiseRef s of
        None \<Rightarrow> promises s
      | Some p \<Rightarrow>
          (case promises s p of
             None \<Rightarrow> promises s
           | Some pr \<Rightarrow> (promises s)(p \<mapsto> then_on CloseSession pr)))"
    unfolding onerror_def cleanup_promises [of ?t] request_close_promises [of ?t] refs
    by (simp add: promise_then_promises onerror_log_def split: option.splits)
  have rest: "status (onerror s) = ERROR \<and> released (onerror s) \<and>
    localStream (onerror s) = (if localStreamRef s = None then localStream s else None) \<and>
    heap_next (onerror s) = heap_next s \<and>
    status (handleStop s) = DISCONNECTED \<and>
    status (onerror (handleStop s)) = ERROR \<and>
    status (onclose (handleStop s)) = DISCONNECTED"
    by (simp add: onerror_def onerror_log_def cleanup_released handleStop_def onclose_def)
  from ef pr rest show ?thesis by simp
qed

theorem onerror_unconditional_witness:
  "status (onerror s_live) = ERROR \<and>
   effects (onerror s_live) =
     effects s_live @
     [ConsoleError ''Gemini Live API Error:'', StopTracks 0, Disconnect 5, Disconnect 4,
      SourceStop 6, SourceStop 7, ContextClose 2] \<and>
   promises (onerror s_live) 3 = Some (Pending [CloseSession]) \<and>
   status (onerror (handleStop s_live)) = ERROR"
  using onerror_unconditional [of s_live] by (simp add: s_live_value then_on_def)

section \<open>Facts about enqueue\<close>

lemma duration_nonneg: "0 \<le> duration b"
  by (simp add: duration_def)

lemma starts_append: "starts (xs @ ys) = starts xs @ starts ys"
  by (induction xs rule: starts.induct) simp_all

lemma enqueue_ok:
  assumes "dec a = Inr b"
  shows "enqueue dec now a s =
    (None, s\<lparr>heap_next := heap_next s + 1,
             effects := effects s @ [SourceStart (heap_next s) (max (nextStartTimeRef s) now) b],
             nextStartTimeRef := max (nextStartTimeRef s) now + duration b,
             playingSourcesRef := set_add (heap_next s) (playingSourcesRef s)\<rparr>)"
  using assms by (simp add: enqueue_def enqueue_begin_def enqueue_resume_def Let_def)

lemma enqueue_fail:
  assumes "dec a = Inl e"
  shows "enqueue dec now a s = (Some e, s\<lparr>nextStartTimeRef := max (nextStartTimeRef s) now\<rparr>)"
  using assms by (simp add: enqueue_def enqueue_begin_def)

lemma set_add_mem: "x \<in> set (set_add x xs)"
  by (simp add: set_add_def)

lemma set_delete_not_mem: "x \<notin> set (set_delete x xs)"
  by (simp add: set_delete_def)

lemma enqueue_all_starts:
  assumes "\<forall>c \<in> set calls. \<exists>b. dec (snd c) = Inr b"
  shows "\<exists>new. starts (effects (enqueue_all dec calls s)) = starts (effects s) @ new \<and>
           sorted new \<and> list_all2 (\<le>) (map fst calls) new \<and>
           (\<forall>t \<in> set new. nextStartTimeRef s \<le> t)"
  using assms
proof (induction calls arbitrary: s)
  case Nil
  then show ?case by simp
next
  case (Cons c calls)
  from Cons.prems obtain b where b: "dec (snd c) = Inr b" by auto
  let ?t0 = "max (nextStartTimeRef s) (fst c)"
  let ?s1 = "snd (enqueue dec (fst c) (snd c) s)"
  have eff1: "effects ?s1 = effects s @ [SourceStart (heap_next s) ?t0 b]"
    and cur1: "nextStartTimeRef ?s1 = ?t0 + duration b"
    using b by (simp_all add: enqueue_ok [where dec = dec and a = "snd c" and b = b])
  from Cons.prems have "\<forall>c \<in> set calls. \<exists>b. dec (snd c) = Inr b" by simp
  from Cons.IH [OF this, of ?s1] obtain new where
    new: "starts (effects (enqueue_all dec calls ?s1)) = starts (effects ?s1) @ new"
      "sorted new" "list_all2 (\<le>) (map fst calls) new"
      "\<forall>t \<in> set new. nextStartTimeRef ?s1 \<le> t"
    by blast
  have later: "\<forall>t \<in> set new. ?t0 \<le> t"
  proof
    fix t assume "t \<in> set new"
    with new(4) cur1 have "?t0 + duration b \<le> t" by simp
    with duration_nonneg [of b] show "?t0 \<le> t" by linarith
  qed
  have "starts (effects (enqueue_all dec (c # calls) s)) = starts (effects s) @ (?t0 # new)"
    using new(1) eff1 by (simp add: starts_append)
  moreover have "sorted (?t0 # new)" using new(2) later by simp
  moreover have "list_all2 (\<le>) (map fst (c # calls)) (?t0 # new)" using new(3) by simp
  moreover have "\<forall>t \<in> set (?t0 # new). nextStartTimeRef s \<le> t"
    using later by auto
  ultimately show ?case by blast
qed


section \<open>A promise the component no longer refers to\<close>










lemma onmessage_enqueue:
  assumes "audioData_of m = Inr (Some a)" and "a \<noteq> []"
    and "outputAudioContextRef s \<noteq> None" and "\<not> interrupted_of m"
  shows "onmessage dec now m s = enqueue dec now a s"
  using assms by (cases "enqueue dec now a s"; cases "fst (enqueue dec now a s)")
    (simp_all add: onmessage_def)

section \<open>Scheduling of inbound audio\<close>

text \<open>
  C1. A call of \<open>enqueue\<close> at clock time \<open>now\<close> whose payload decodes to a buffer
  \<open>b\<close> resolves; it starts a new source at \<open>max cursor now\<close>, the cursor and the clock
  being those at the call; it leaves the cursor at that start time plus the duration of
  \<open>b\<close>; the new source is in the set of playing sources, and its \<open>ended\<close> listener
  takes it out again. The message handler runs exactly this for a message with a
  non-empty payload while the output context exists (without interruption flag, nothing
  else). Over any sequence of such calls, with any clock readings and any durations, one
  start is logged per call, the logged start times never decrease, and each is at least
  the clock reading of its call.
\<close>

theorem enqueue_schedule:
  assumes "dec a = Inr b"
    and "\<forall>c \<in> set calls. \<exists>b'. dec (snd c) = Inr b'"
  shows "fst (enqueue dec now a s) = None \<and>
    effects (snd (enqueue dec now a s)) =
      effects s @ [SourceStart (heap_next s) (max (nextStartTimeRef s) now) b] \<and>
    nextStartTimeRef (snd (enqueue dec now a s)) = max (nextStartTimeRef s) now + duration b \<and>
    heap_next s \<in> set (playingSourcesRef (snd (enqueue dec now a s))) \<and>
    heap_next s \<notin> set (playingSourcesRef (ended (heap_next s) (snd (enqueue dec now a s)))) \<and>
    (audioData_of m = Inr (Some a) \<and> a \<noteq> [] \<and> outputAudioContextRef s \<noteq> None \<and>
       \<not> interrupted_of m \<longrightarrow> onmessage dec now m s = enqueue dec now a s) \<and>
    length (starts (effects (enqueue_all dec calls s))) =
      length (starts (effects s)) + length calls \<and>
    sorted (drop (length (starts (effects s))) (starts (effects (enqueue_all dec calls s)))) \<and>
    list_all2 (\<le>) (map fst calls)
      (drop (length (starts (effects s))) (starts (effects (enqueue_all dec calls s))))"
proof -
  from enqueue_all_starts [OF assms(2), of s] obtain new where
    new: "starts (effects (enqueue_all dec calls s)) = starts (effects s) @ new"
      "sorted new" "list_all2 (\<le>) (map fst calls) new"
    by blast
  from new(3) have len: "length new = length calls"
    by (simp add: list_all2_lengthD [symmetric])
  have one: "enqueue dec now a s =
    (None, s\<lparr>heap_next := heap_next s + 1,
             effects := effects s @ [SourceStart (heap_next s) (max (nextStartTimeRef s) now) b],
             nextStartTimeRef := max (nextStartTimeRef s) now + duration b,
             playingSourcesRef := set_add (heap_next s) (playingSourcesRef s)\<rparr>)"
    using assms(1) by (rule enqueue_ok)
  have handler: "audioData_of m = Inr (Some a) \<and> a \<noteq> [] \<and> outputAudioContextRef s \<noteq> None \<and>
       \<not> interrupted_of m \<longrightarrow> onmessage dec now m s = enqueue dec now a s"
    using onmessage_enqueue [of m a s dec now] by blast
  show ?thesis
    using handler new len
    by (simp add: one ended_def set_add_mem set_delete_not_mem)
qed

theorem enqueue_schedule_witness:
  "fst (enqueue dec_half 1 ''x'' s_live) = None \<and>
   nextStartTimeRef (snd (enqueue dec_half 1 ''x'' s_live)) = 5 / 2 \<and>
   onmessage dec_half 1 (audio_message ''x'' False) s_live = enqueue dec_half 1 ''x'' s_live \<and>
   sorted (drop 2
     (starts (effects (enqueue_all dec_half [(1, ''x''), (1, ''y''), (9, ''z'')] s_live)))) \<and>
   list_all2 (\<le>) [1, 1, 9] (drop 2
     (starts (effects (enqueue_all dec_half [(1, ''x''), (1, ''y''), (9, ''z'')] s_live))))"
proof -
  have h1: "dec_half ''x'' = Inr (AudioBuffer 12000 24000)"
    by (simp add: dec_half_def)
  have h2: "\<forall>c \<in> set [(1::real, ''x''), (1, ''y''), (9, ''z'')]. \<exists>b'. dec_half (snd c) = Inr b'"
    by (simp add: dec_half_def)
  have h3: "audioData_of (audio_message ''x'' False) = Inr (Some ''x'') \<and> ''x'' \<noteq> [] \<and>
    outputAudioContextRef s_live \<noteq> None \<and> \<not> interrupted_of (audio_message ''x'' False)"
    by (simp add: audio_message_def audioData_of_def interrupted_of_def s_live_value)
  have e: "length (starts (effects s_live)) = 2" by (simp add: s_live_value)
  have d: "max (nextStartTimeRef s_live) 1 + duration (AudioBuffer 12000 24000) = 5 / 2"
    by (simp add: s_live_value duration_def)
  from enqueue_schedule [OF h1 h2, of 1 s_live "audio_message ''x'' False"] h3 e d
  show ?thesis by simp
qed

text \<open>
  C9. Buffer A is enqueued at clock time \<open>nowA\<close> and buffer B right after it at
  \<open>nowB\<close>, nothing in between. If the start time of A is not before \<open>nowB\<close>, the two
  logged starts are the start time of A and that time plus the duration of A.
\<close>

theorem gapless_contiguity:
  assumes "dec a = Inr bufA" and "dec b = Inr bufB"
    and "nowB \<le> max (nextStartTimeRef s) nowA"
  shows "effects (snd (enqueue dec nowB b (snd (enqueue dec nowA a s)))) =
     effects s @
       [SourceStart (heap_next s) (max (nextStartTimeRef s) nowA) bufA,
        SourceStart (heap_next s + 1) (max (nextStartTimeRef s) nowA + duration bufA) bufB]"
proof -
  have "nowB \<le> max (nextStartTimeRef s) nowA + duration bufA"
    using assms(3) duration_nonneg [of bufA] by linarith
  then have "max (max (nextStartTimeRef s) nowA + duration bufA) nowB =
      max (nextStartTimeRef s) nowA + duration bufA"
    by (simp add: max_def)
  then show ?thesis
    using assms(1,2)
    by (simp add: enqueue_ok [where dec = dec and a = a and b = bufA]
        enqueue_ok [where dec = dec and a = b and b = bufB])
qed

theorem gapless_contiguity_witness:
  "starts (effects (snd (enqueue dec_half 2 ''y'' (snd (enqueue dec_half 3 ''x'' init))))) =
     [3, 3 + 1 / 2]"
proof -
  have h1: "dec_half ''x'' = Inr (AudioBuffer 12000 24000)"
    and h2: "dec_half ''y'' = Inr (AudioBuffer 12000 24000)"
    by (simp_all add: dec_half_def)
  have h3: "(2::real) \<le> max (nextStartTimeRef init) 3" by (simp add: init_def)
  from gapless_contiguity [OF h1 h2 h3] show ?thesis
    by (simp add: init_def duration_def)
qed

section \<open>Stopping before the connection exists\<close>






section \<open>Interruption and the cursor\<close>

lemma onmessage_cursor_mono:
  assumes "\<not> interrupted_of m"
  shows "nextStartTimeRef s \<le> nextStartTimeRef (snd (onmessage dec now m s))"
  using assms duration_nonneg
  by (auto simp add: onmessage_def enqueue_def enqueue_begin_def enqueue_resume_def Let_def
      max_def add_increasing2 split: sum.splits option.splits prod.splits)

lemma onmessage_interrupted:
  assumes "interrupted_of m" and "fst (onmessage dec now m s) = None"
  shows "\<exists>s1. snd (onmessage dec now m s) = interrupt s1 \<and>
           set (playingSourcesRef s) \<subseteq> set (playingSourcesRef s1) \<and>
           (\<exists>es. effects s1 = effects s @ es)"
  using assms
  by (auto simp add: onmessage_def enqueue_def enqueue_begin_def enqueue_resume_def Let_def
      set_add_def split: sum.splits option.splits prod.splits if_splits)

lemma onmessage_rejected:
  assumes "fst (onmessage dec now m s) \<noteq> None"
  shows "playingSourcesRef (snd (onmessage dec now m s)) = playingSourcesRef s \<and>
    effects (snd (onmessage dec now m s)) = effects s \<and>
    status (snd (onmessage dec now m s)) = status s"
  using assms
  by (auto simp add: onmessage_def enqueue_def enqueue_begin_def Let_def
      split: sum.splits option.splits prod.splits if_splits)

lemma onmessage_rejected_iff:
  "(fst (onmessage dec now m s) \<noteq> None) =
     ((\<exists>e. audioData_of m = Inl e) \<or>
      (\<exists>a e. audioData_of m = Inr (Some a) \<and> a \<noteq> [] \<and>
         outputAudioContextRef s \<noteq> None \<and> dec a = Inl e))"
  by (auto simp add: onmessage_def enqueue_def enqueue_begin_def Let_def
      split: sum.splits option.splits prod.splits if_splits)

lemma onmessage_resolved_interrupt:
  assumes "interrupted_of m" and "fst (onmessage dec now m s) = None"
  shows "playingSourcesRef (snd (onmessage dec now m s)) = [] \<and>
    nextStartTimeRef (snd (onmessage dec now m s)) = 0 \<and>
    (\<forall>source \<in> set (playingSourcesRef s).
       SourceStop source \<in> set (effects (snd (onmessage dec now m s)))) \<and>
    (\<forall>a b now'. dec a = Inr b \<and> 0 \<le> now' \<longrightarrow>
       starts (effects (snd (enqueue dec now' a (snd (onmessage dec now m s))))) =
         starts (effects (snd (onmessage dec now m s))) @ [now'])"
proof -
  from onmessage_interrupted [OF assms] obtain s1 where
    s1: "snd (onmessage dec now m s) = interrupt s1"
      "set (playingSourcesRef s) \<subseteq> set (playingSourcesRef s1)"
    by blast
  have a: "playingSourcesRef (interrupt s1) = []" "nextStartTimeRef (interrupt s1) = 0"
    by (simp_all add: interrupt_def)
  have b: "\<forall>source \<in> set (playingSourcesRef s). SourceStop source \<in> set (effects (interrupt s1))"
    using s1(2) by (auto simp add: interrupt_def)
  have c: "\<forall>a b now'. dec a = Inr b \<and> 0 \<le> now' \<longrightarrow>
       starts (effects (snd (enqueue dec now' a (interrupt s1)))) =
         starts (effects (interrupt s1)) @ [now']"
  proof (intro allI impI)
    fix a b now' assume h: "dec a = Inr b \<and> 0 \<le> (now'::real)"
    then have "dec a = Inr b" by simp
    from enqueue_ok [where dec = dec and a = a and b = b, OF this] h a(2)
    show "starts (effects (snd (enqueue dec now' a (interrupt s1)))) =
         starts (effects (interrupt s1)) @ [now']"
      by (simp add: starts_append)
  qed
  show ?thesis unfolding s1(1) using a b c by blast
qed

text \<open>
  C3, as the code has it. A message carries the interruption flag. Its handler throws
  before the interruption branch exactly when the model turn of the message has no
  \<open>parts\<close>, or when the message has a non-empty audio payload, the output context
  exists and the payload fails to decode. If it does not throw, every source that was
  playing is stopped, the set of playing sources is empty, and the cursor is 0, however
  many sources there were; the cursor is not set to the clock's time: the next
  \<open>enqueue\<close> raises it, so the next buffer starts at the clock's time of that later
  call. If it throws, the interruption is not acted on: the set of playing sources is as
  before and no source is stopped.
\<close>

theorem interrupt_clears:
  assumes "interrupted_of m"
  shows "(fst (onmessage dec now m s) = None \<longrightarrow>
      playingSourcesRef (snd (onmessage dec now m s)) = [] \<and>
      nextStartTimeRef (snd (onmessage dec now m s)) = 0 \<and>
      (\<forall>source \<in> set (playingSourcesRef s).
         SourceStop source \<in> set (effects (snd (onmessage dec now m s)))) \<and>
      (\<forall>a b now'. dec a = Inr b \<and> 0 \<le> now' \<longrightarrow>
         starts (effects (snd (enqueue dec now' a (snd (onmessage dec now m s))))) =
           starts (effects (snd (onmessage dec now m s))) @ [now'])) \<and>
    (fst (onmessage dec now m s) \<noteq> None \<longrightarrow>
      playingSourcesRef (snd (onmessage dec now m s)) = playingSourcesRef s \<and>
      effects (snd (onmessage dec now m s)) = effects s \<and>
      status (snd (onmessage dec now m s)) = status s) \<and>
    (fst (onmessage dec now m s) \<noteq> None) =
      ((\<exists>e. audioData_of m = Inl e) \<or>
       (\<exists>a e. audioData_of m = Inr (Some a) \<and> a \<noteq> [] \<and>
          outputAudioContextRef s \<noteq> None \<and> dec a = Inl e))"
  using onmessage_resolved_interrupt [OF assms, of dec now s]
    onmessage_rejected [of dec now m s] onmessage_rejected_iff [of dec now m s]
  by blast

text \<open>
  On the running session at clock time 5. An interruption leaves the cursor at 0, which
  is neither the clock's time nor at least the clock's time. An interruption that comes
  with a payload that does not decode, or with a model turn without \<open>parts\<close>, makes the
  handler throw: both sources are still in the set and none is stopped.
\<close>

theorem interrupt_zero_or_skipped:
  "interrupted_of (plain_message True) \<and>
   fst (onmessage dec_half 5 (plain_message True) s_live) = None \<and>
   nextStartTimeRef (snd (onmessage dec_half 5 (plain_message True) s_live)) = 0 \<and>
   nextStartTimeRef (snd (onmessage dec_half 5 (plain_message True) s_live)) \<noteq> 5 \<and>
   \<not> 5 \<le> nextStartTimeRef (snd (onmessage dec_half 5 (plain_message True) s_live)) \<and>
   interrupted_of (audio_message ''!'' True) \<and>
   fst (onmessage dec_half 5 (audio_message ''!'' True) s_live) = Some MalformedFrame \<and>
   playingSourcesRef (snd (onmessage dec_half 5 (audio_message ''!'' True) s_live)) = [6, 7] \<and>
   effects (snd (onmessage dec_half 5 (audio_message ''!'' True) s_live)) = effects s_live \<and>
   interrupted_of (partless_message True) \<and>
   onmessage dec_half 5 (partless_message True) s_live = (Some TypeError, s_live)"
  by (simp add: s_live_value onmessage_def plain_message_def audio_message_def
      partless_message_def audioData_of_def interrupted_of_def interrupt_def enqueue_def
      enqueue_begin_def dec_half_def)

theorem interrupt_clears_witness:
  "playingSourcesRef (snd (onmessage dec_half 5 (plain_message True) s_live)) = [] \<and>
   SourceStop 6 \<in> set (effects (snd (onmessage dec_half 5 (plain_message True) s_live))) \<and>
   starts (effects (snd (enqueue dec_half 5 ''x''
      (snd (onmessage dec_half 5 (plain_message True) s_live))))) = [1, 3 / 2, 5] \<and>
   playingSourcesRef (snd (onmessage dec_half 5 (audio_message ''!'' True) s_live)) =
     playingSourcesRef s_live \<and>
   effects (snd (onmessage dec_half 5 (audio_message ''!'' True) s_live)) = effects s_live"
proof -
  have h: "interrupted_of (plain_message True)"
    "fst (onmessage dec_half 5 (plain_message True) s_live) = None"
    by (simp_all add: s_live_value onmessage_def plain_message_def audioData_of_def
        interrupted_of_def)
  have live: "6 \<in> set (playingSourcesRef s_live)" by (simp add: s_live_value)
  have d: "dec_half ''x'' = Inr (AudioBuffer 12000 24000) \<and> (0::real) \<le> 5"
    by (simp add: dec_half_def)
  have e: "starts (effects (snd (onmessage dec_half 5 (plain_message True) s_live))) = [1, 3 / 2]"
    by (simp add: s_live_value onmessage_def plain_message_def audioData_of_def
        interrupted_of_def interrupt_def)
  from interrupt_clears [OF h(1), of dec_half 5 s_live] h(2) live d e
  have a: "playingSourcesRef (snd (onmessage dec_half 5 (plain_message True) s_live)) = [] \<and>
   SourceStop 6 \<in> set (effects (snd (onmessage dec_half 5 (plain_message True) s_live))) \<and>
   starts (effects (snd (enqueue dec_half 5 ''x''
      (snd (onmessage dec_half 5 (plain_message True) s_live))))) = [1, 3 / 2, 5]"
    by fastforce
  have g: "interrupted_of (audio_message ''!'' True)"
    "fst (onmessage dec_half 5 (audio_message ''!'' True) s_live) \<noteq> None"
    by (simp_all add: s_live_value onmessage_def audio_message_def audioData_of_def
        interrupted_of_def enqueue_def enqueue_begin_def dec_half_def)
  from interrupt_clears [OF g(1), of dec_half 5 s_live] g(2)
  have b: "playingSourcesRef (snd (onmessage dec_half 5 (audio_message ''!'' True) s_live)) =
     playingSourcesRef s_live \<and>
   effects (snd (onmessage dec_half 5 (audio_message ''!'' True) s_live)) = effects s_live"
    by blast
  from a b show ?thesis by blast
qed

text \<open>
  C2, as the code has it. \<open>cleanup\<close>, hence every start of a session, and every handled
  interruption set the cursor to 0. No other handler lowers it: a message without
  interruption flag leaves it where it was or higher, and the remaining handlers do not
  touch it. Right after an \<open>enqueue\<close> the cursor is at least the clock's time read by
  that call.
\<close>

theorem cursor_between_resets:
  "nextStartTimeRef (cleanup s) = 0 \<and>
   nextStartTimeRef (startChat apiKey granted s) = 0 \<and>
   (interrupted_of m \<and> fst (onmessage dec now m s) = None \<longrightarrow>
      nextStartTimeRef (snd (onmessage dec now m s)) = 0) \<and>
   (\<not> interrupted_of m \<longrightarrow>
      nextStartTimeRef s \<le> nextStartTimeRef (snd (onmessage dec now m s))) \<and>
   nextStartTimeRef s \<le> nextStartTimeRef (snd (enqueue dec now a s)) \<and>
   now \<le> nextStartTimeRef (snd (enqueue dec now a s)) \<and>
   nextStartTimeRef (onopen stream c s) = nextStartTimeRef s \<and>
   nextStartTimeRef (onaudioprocess pcmBlob s) = nextStartTimeRef s \<and>
   nextStartTimeRef (ended source s) = nextStartTimeRef s \<and>
   nextStartTimeRef (onclose s) = nextStartTimeRef s \<and>
   nextStartTimeRef (handleNext s) = nextStartTimeRef s \<and>
   nextStartTimeRef (resolve_session p s) = nextStartTimeRef s \<and>
   nextStartTimeRef (reject_session p s) = nextStartTimeRef s"
proof -
  have start: "nextStartTimeRef (startChat apiKey granted s) = 0"
    by (simp add: startChat_def startChat_resume_def startChat_begin_def startChat_catch_def
        Let_def)
  have intr: "interrupted_of m \<and> fst (onmessage dec now m s) = None \<longrightarrow>
      nextStartTimeRef (snd (onmessage dec now m s)) = 0"
    using onmessage_interrupted [of m dec now s] by (auto simp add: interrupt_def)
  have mono: "\<not> interrupted_of m \<longrightarrow>
      nextStartTimeRef s \<le> nextStartTimeRef (snd (onmessage dec now m s))"
    using onmessage_cursor_mono [of m s dec now] by blast
  have enq: "nextStartTimeRef s \<le> nextStartTimeRef (snd (enqueue dec now a s)) \<and>
      now \<le> nextStartTimeRef (snd (enqueue dec now a s))"
    using duration_nonneg
    by (auto simp add: enqueue_def enqueue_begin_def enqueue_resume_def Let_def max_def
        add_increasing2 split: sum.splits)
  have rest: "nextStartTimeRef (onopen stream c s) = nextStartTimeRef s \<and>
   nextStartTimeRef (onaudioprocess pcmBlob s) = nextStartTimeRef s \<and>
   nextStartTimeRef (ended source s) = nextStartTimeRef s \<and>
   nextStartTimeRef (onclose s) = nextStartTimeRef s \<and>
   nextStartTimeRef (handleNext s) = nextStartTimeRef s \<and>
   nextStartTimeRef (resolve_session p s) = nextStartTimeRef s \<and>
   nextStartTimeRef (reject_session p s) = nextStartTimeRef s"
    by (simp add: onopen_def onaudioprocess_def ended_def onclose_def handleNext_def
        resolve_session_def reject_session_def Let_def split: option.splits promise.splits)
  from start intr mono enq rest show ?thesis by simp
qed

theorem cursor_between_resets_witness:
  "nextStartTimeRef (snd (onmessage dec_half 5 (plain_message True) s_live)) = 0 \<and>
   nextStartTimeRef s_live \<le>
     nextStartTimeRef (snd (onmessage dec_half 5 (audio_message ''y'' False) s_live))"
proof -
  have h1: "interrupted_of (plain_message True) \<and>
    fst (onmessage dec_half 5 (plain_message True) s_live) = None"
    by (simp add: s_live_value onmessage_def plain_message_def audioData_of_def
        interrupted_of_def)
  have h2: "\<not> interrupted_of (audio_message ''y'' False)"
    by (simp add: audio_message_def interrupted_of_def)
  from cursor_between_resets [of s_live _ _ "plain_message True" dec_half 5] h1
  have a: "nextStartTimeRef (snd (onmessage dec_half 5 (plain_message True) s_live)) = 0"
    by blast
  from cursor_between_resets [of s_live _ _ "audio_message ''y'' False" dec_half 5] h2
  have b: "nextStartTimeRef s_live \<le>
     nextStartTimeRef (snd (onmessage dec_half 5 (audio_message ''y'' False) s_live))"
    by blast
  from a b show ?thesis by blast
qed

text \<open>
  The cursor of the running session is 2. A message without audio at clock time 4
  leaves it there, below the clock; \<open>handleStop\<close> moves it back to 0.
\<close>

theorem cursor_falls_behind_clock:
  "nextStartTimeRef s_live = 2 \<and>
   nextStartTimeRef (snd (onmessage dec_half 4 (plain_message False) s_live)) = 2 \<and>
   \<not> 4 \<le> nextStartTimeRef (snd (onmessage dec_half 4 (plain_message False) s_live)) \<and>
   nextStartTimeRef (handleStop s_live) = 0 \<and>
   \<not> nextStartTimeRef s_live \<le> nextStartTimeRef (handleStop s_live)"
  by (simp add: s_live_value onmessage_def plain_message_def audioData_of_def
      interrupted_of_def handleStop_def)


section \<open>Starting without a credential\<close>

lemma startChat_begin_fields:
  "status (startChat_begin s) = CONNECTING"
  "released (startChat_begin s)"
  "effects (startChat_begin s) = effects (cleanup s) @ [GetUserMedia]"
  "promises (startChat_begin s) = promises (cleanup s)"
  "heap_next (startChat_begin s) = heap_next s"
  by (simp_all add: startChat_begin_def Let_def released_def)

lemma startChat_catch_fields:
  "status (startChat_catch s) = ERROR"
  "released (startChat_catch s)"
  by (simp_all add: startChat_catch_def cleanup_released)

text \<open>
  C4, as the code has it. \<open>startChat\<close> sets CONNECTING and requests the media device
  before it looks at the credential. When the credential is absent or empty, the status
  is ERROR once the device request has settled, every handle is released again (the
  tracks of a granted stream are stopped), and between the request and the error nothing
  else happens: no audio context is created and no connection is opened.
\<close>

theorem startChat_missing_key:
  assumes "\<not> truthy apiKey"
  shows "status (startChat_begin s) = CONNECTING \<and>
    status (startChat apiKey granted s) = ERROR \<and>
    released (startChat apiKey granted s) \<and>
    effects (startChat apiKey granted s) =
      effects (cleanup s) @ [GetUserMedia, ConsoleError ''Failed to start chat:''] @
      (if granted then [StopTracks (heap_next s)] else []) \<and>
    promises (startChat apiKey granted s) = promises (cleanup s)"
proof -
  let ?b = "startChat_begin s"
  have rel: "released ?b" by (rule startChat_begin_fields)
  then have refs: "localStreamRef ?b = None" "sessionPromiseRef ?b = None"
    "inputAudioProcessorRef ?b = None" "playingSourcesRef ?b = []"
    "outputAudioContextRef ?b = None"
    by (simp_all add: released_def)
  have st: "status (startChat apiKey granted s) = ERROR"
    using assms by (simp add: startChat_def startChat_resume_def Let_def startChat_catch_fields)
  have rl: "released (startChat apiKey granted s)"
    using assms by (simp add: startChat_def startChat_resume_def Let_def startChat_catch_fields)
  have ef: "effects (startChat apiKey granted s) =
      effects (cleanup s) @ [GetUserMedia, ConsoleError ''Failed to start chat:''] @
      (if granted then [StopTracks (heap_next s)] else [])"
    using assms refs
    by (simp add: startChat_def startChat_resume_def Let_def startChat_catch_def
        cleanup_effects startChat_begin_fields)
  have pr: "promises (startChat apiKey granted s) = promises (cleanup s)"
    using assms refs
    by (simp add: startChat_def startChat_resume_def Let_def startChat_catch_def
        cleanup_promises request_close_promises startChat_begin_fields)
  from st rl ef pr startChat_begin_fields(1) [of s] show ?thesis by simp
qed

theorem startChat_missing_key_witness:
  "status (startChat None True init) = ERROR \<and> released (startChat None True init) \<and>
   promises (startChat None True init) = Map.empty"
proof -
  have h: "\<not> truthy None" by (simp add: truthy_def)
  have c: "cleanup init = init" by (rule cleanup_of_released) (simp add: released_def init_def)
  from startChat_missing_key [OF h, of init True] c show ?thesis by (simp add: init_def)
qed

text \<open>
  Without a credential, from the fresh component: the first half of \<open>startChat\<close> sets
  CONNECTING and calls \<open>getUserMedia\<close>; the stream is acquired, then released.
\<close>

theorem startChat_missing_key_acquires_device:
  "\<not> truthy None \<and>
   status (startChat_begin init) = CONNECTING \<and>
   effects (startChat_begin init) = [GetUserMedia] \<and>
   status (startChat None True init) = ERROR \<and>
   effects (startChat None True init) =
     [GetUserMedia, ConsoleError ''Failed to start chat:'', StopTracks 0]"
  by (simp add: truthy_def startChat_def startChat_begin_def startChat_resume_def
      startChat_catch_def init_def cleanup_def release_stream_def request_close_def
      release_capture_def stop_sources_def close_output_def Let_def)

section \<open>A payload that does not decode\<close>

text \<open>
  C5, as the code has it. When the payload of a message fails to decode, the frame is
  dropped: the handler rejects with that error at the decode. By then it has raised the
  cursor to \<open>max cursor now\<close>, and that is the only change: nothing is scheduled and
  nothing is logged, and status, playing sources and all handles are as before, so the
  session goes on.
\<close>

theorem decode_failure_dropped:
  assumes "audioData_of m = Inr (Some a)" and "a \<noteq> []"
    and "outputAudioContextRef s \<noteq> None" and "dec a = Inl e"
  shows "onmessage dec now m s =
      (Some e, s\<lparr>nextStartTimeRef := max (nextStartTimeRef s) now\<rparr>) \<and>
    status (snd (onmessage dec now m s)) = status s \<and>
    playingSourcesRef (snd (onmessage dec now m s)) = playingSourcesRef s \<and>
    effects (snd (onmessage dec now m s)) = effects s"
  using assms by (simp add: onmessage_def enqueue_fail [where dec = dec and a = a and e = e])

theorem decode_failure_dropped_witness:
  "onmessage dec_half 9 (audio_message ''!'' False) s_live =
     (Some MalformedFrame, s_live\<lparr>nextStartTimeRef := 9\<rparr>)"
proof -
  have h: "audioData_of (audio_message ''!'' False) = Inr (Some ''!'')" "''!'' \<noteq> []"
    "outputAudioContextRef s_live \<noteq> None" "dec_half ''!'' = Inl MalformedFrame"
    by (simp_all add: audio_message_def audioData_of_def s_live_value dec_half_def)
  have c: "max (nextStartTimeRef s_live) 9 = 9" by (simp add: s_live_value)
  from decode_failure_dropped [where dec = dec_half and now = 9, OF h] c
  show ?thesis by simp
qed

text \<open>
  A message with an undecodable payload on the running session: the handler rejects and
  the log of effects has no new entry, so no warning was written.
\<close>

theorem decode_failure_not_logged:
  "dec_half ''!'' = Inl MalformedFrame \<and>
   fst (onmessage dec_half 9 (audio_message ''!'' False) s_live) = Some MalformedFrame \<and>
   effects (snd (onmessage dec_half 9 (audio_message ''!'' False) s_live)) = effects s_live"
  by (simp add: s_live_value onmessage_def audio_message_def audioData_of_def
      interrupted_of_def enqueue_def enqueue_begin_def dec_half_def)

section \<open>Closing of the transport\<close>

text \<open>
  C6. On the connected session \<open>onclose\<close> sets DISCONNECTED and does nothing else: the
  stream, the session promise, the capture nodes, the playing sources and the output
  context are still referenced and nothing is stopped, disconnected or closed, whereas
  \<open>onerror\<close> on the same state releases all of them.
\<close>

theorem onclose_runs_no_cleanup:
  "status s_live = CONNECTED \<and>
   onclose s_live = s_live\<lparr>status := DISCONNECTED\<rparr> \<and>
   localStreamRef (onclose s_live) = Some 0 \<and>
   sessionPromiseRef (onclose s_live) = Some 3 \<and>
   inputAudioProcessorRef (onclose s_live) = Some (4, 5) \<and>
   playingSourcesRef (onclose s_live) = [6, 7] \<and>
   outputAudioContextRef (onclose s_live) = Some 2 \<and>
   effects (onclose s_live) = effects s_live \<and>
   \<not> released (onclose s_live) \<and>
   released (onerror s_live)"
  by (simp add: s_live_value onclose_def released_def onerror_def)

end
